theory Spec2Isabelle
  imports Complex_Main "HOL-Library.Multiset" "HOL-Library.Product_Lexorder"
begin

section \<open>JavaScript numbers\<close>

text \<open>
  The planner of \<^verbatim>\<open>App.tsx\<close> computes with JavaScript numbers. A number is modelled
  as \<^verbatim>\<open>NaN\<close>, one of the two infinities, or a finite value; a finite double is
  represented by the rational it denotes, and the rounding of inexact results is not
  modelled. The operations below follow ECMAScript on these four kinds of value.
  Signed zero is not tracked (both zeros are \<open>Fin 0\<close>).
\<close>

datatype jsnum = NaN | NegInf | Fin rat | PosInf

fun js_add :: "jsnum \<Rightarrow> jsnum \<Rightarrow> jsnum" where
  "js_add (Fin a) (Fin b) = Fin (a + b)"
| "js_add NaN _ = NaN"
| "js_add _ NaN = NaN"
| "js_add PosInf NegInf = NaN"
| "js_add NegInf PosInf = NaN"
| "js_add PosInf _ = PosInf"
| "js_add _ PosInf = PosInf"
| "js_add NegInf _ = NegInf"
| "js_add _ NegInf = NegInf"

fun js_neg :: "jsnum \<Rightarrow> jsnum" where
  "js_neg NaN = NaN"
| "js_neg NegInf = PosInf"
| "js_neg (Fin a) = Fin (- a)"
| "js_neg PosInf = NegInf"

definition js_sub :: "jsnum \<Rightarrow> jsnum \<Rightarrow> jsnum" where
  "js_sub a b = js_add a (js_neg b)"

definition signedInf :: "bool \<Rightarrow> jsnum" where
  "signedInf positive = (if positive then PosInf else NegInf)"

fun js_mul :: "jsnum \<Rightarrow> jsnum \<Rightarrow> jsnum" where
  "js_mul (Fin a) (Fin b) = Fin (a * b)"
| "js_mul NaN _ = NaN"
| "js_mul _ NaN = NaN"
| "js_mul PosInf (Fin b) = (if b = 0 then NaN else signedInf (0 < b))"
| "js_mul NegInf (Fin b) = (if b = 0 then NaN else signedInf (b < 0))"
| "js_mul (Fin a) PosInf = (if a = 0 then NaN else signedInf (0 < a))"
| "js_mul (Fin a) NegInf = (if a = 0 then NaN else signedInf (a < 0))"
| "js_mul PosInf PosInf = PosInf"
| "js_mul NegInf NegInf = PosInf"
| "js_mul PosInf NegInf = NegInf"
| "js_mul NegInf PosInf = NegInf"

text \<open>Division; a zero divisor is taken as \<open>+0\<close> (the planner only divides by 60).\<close>

fun js_div :: "jsnum \<Rightarrow> jsnum \<Rightarrow> jsnum" where
  "js_div (Fin a) (Fin b) =
     (if b = 0 then (if a = 0 then NaN else signedInf (0 < a)) else Fin (a / b))"
| "js_div NaN _ = NaN"
| "js_div _ NaN = NaN"
| "js_div PosInf (Fin b) = signedInf (0 \<le> b)"
| "js_div NegInf (Fin b) = signedInf (b < 0)"
| "js_div (Fin a) _ = Fin 0"
| "js_div _ _ = NaN"



fun js_lt :: "jsnum \<Rightarrow> jsnum \<Rightarrow> bool" where
  "js_lt (Fin a) (Fin b) = (a < b)"
| "js_lt NaN _ = False"
| "js_lt _ NaN = False"
| "js_lt _ NegInf = False"
| "js_lt NegInf _ = True"
| "js_lt PosInf _ = False"
| "js_lt _ PosInf = True"

fun js_le :: "jsnum \<Rightarrow> jsnum \<Rightarrow> bool" where
  "js_le (Fin a) (Fin b) = (a \<le> b)"
| "js_le NaN _ = False"
| "js_le _ NaN = False"
| "js_le NegInf _ = True"
| "js_le _ NegInf = False"
| "js_le _ PosInf = True"
| "js_le PosInf _ = False"

definition js_gt :: "jsnum \<Rightarrow> jsnum \<Rightarrow> bool" where
  "js_gt a b = js_lt b a"

definition js_ge :: "jsnum \<Rightarrow> jsnum \<Rightarrow> bool" where
  "js_ge a b = js_le b a"

text \<open>\<^verbatim>\<open>a || b\<close> on numbers: \<^verbatim>\<open>NaN\<close> and zero are falsy.\<close>

definition js_or :: "jsnum \<Rightarrow> jsnum \<Rightarrow> jsnum" where
  "js_or a b = (if a = NaN \<or> a = Fin 0 then b else a)"

text \<open>\<^verbatim>\<open>a !== b\<close> on numbers: \<^verbatim>\<open>NaN\<close> differs from every number, itself included.\<close>

definition js_strict_ne :: "jsnum \<Rightarrow> jsnum \<Rightarrow> bool" where
  "js_strict_ne a b = (a = NaN \<or> b = NaN \<or> a \<noteq> b)"


section \<open>Strings and the built-in conversions\<close>

text \<open>\<^verbatim>\<open>value.split(':')\<close>: never empty; the empty string gives one empty part.\<close>

fun split_colon :: "string \<Rightarrow> string list" where
  "split_colon [] = [[]]"
| "split_colon (c # cs) =
     (if c = CHR '':'' then [] # split_colon cs
      else (case split_colon cs of [] \<Rightarrow> [[c]] | p # ps \<Rightarrow> (c # p) # ps))"

text \<open>
  Array destructuring \<^verbatim>\<open>const [a, b, c] = parts\<close> binds a missing element to
  \<^verbatim>\<open>undefined\<close>.
\<close>

definition element :: "'a list \<Rightarrow> nat \<Rightarrow> 'a option" where
  "element xs i = (if i < length xs then Some (xs ! i) else None)"

text \<open>An arithmetic operand that is \<^verbatim>\<open>undefined\<close> converts to \<^verbatim>\<open>NaN\<close>.\<close>

definition toNumber :: "jsnum option \<Rightarrow> jsnum" where
  "toNumber x = (case x of None \<Rightarrow> NaN | Some n \<Rightarrow> n)"

text \<open>
  The built-ins \<^verbatim>\<open>Number(string)\<close> and \<^verbatim>\<open>String(number)\<close> belong to the host, not to
  the repository: the functions below take them as the parameters \<open>N\<close> and \<open>S\<close>.
  For concrete inputs, \<open>NumberDec\<close> and \<open>StringDec\<close> give the host's results on the
  fragment used there: \<^verbatim>\<open>Number\<close> of a string of ASCII decimal digits is its decimal
  value, \<^verbatim>\<open>Number('')\<close> is 0, and \<^verbatim>\<open>Number\<close> of a string of letters that spells no
  numeric literal is \<^verbatim>\<open>NaN\<close>; \<^verbatim>\<open>String\<close> of a non-negative integer is its decimal
  numeral and \<^verbatim>\<open>String(NaN)\<close> is \<^verbatim>\<open>'NaN'\<close>.
\<close>

definition isDigit :: "char \<Rightarrow> bool" where
  "isDigit c = (c \<in> set ''0123456789'')"

definition digitVal :: "char \<Rightarrow> nat" where
  "digitVal c = of_char c - 48"

definition decimalValue :: "string \<Rightarrow> nat" where
  "decimalValue ds = foldl (\<lambda>acc c. 10 * acc + digitVal c) 0 ds"

definition NumberDec :: "string \<Rightarrow> jsnum" where
  "NumberDec s = (if list_all isDigit s then Fin (of_nat (decimalValue s)) else NaN)"




section \<open>Time conversion and display\<close>

text \<open>
  \<^verbatim>\<open>const [hours, minutes, seconds] = value.split(':').map((part) => Number(part) || 0)\<close>
  \<^verbatim>\<open>return hours * 60 + minutes + seconds / 60\<close>
\<close>

definition timeToMinutes :: "(string \<Rightarrow> jsnum) \<Rightarrow> string \<Rightarrow> jsnum" where
  "timeToMinutes N v =
     (let parts = map (\<lambda>part. js_or (N part) (Fin 0)) (split_colon v);
          hours = element parts 0;
          minutes = element parts 1;
          seconds = element parts 2
      in js_add (js_add (js_mul (toNumber hours) (Fin 60)) (toNumber minutes))
                (js_div (toNumber seconds) (Fin 60)))"

definition minutesBetween :: "(string \<Rightarrow> jsnum) \<Rightarrow> string \<Rightarrow> string \<Rightarrow> jsnum" where
  "minutesBetween N start finish = js_sub (timeToMinutes N finish) (timeToMinutes N start)"






section \<open>The GTFS tables and the planner's records\<close>

text \<open>
  The types of \<^verbatim>\<open>App.tsx\<close>. A field name shared by two of its types is prefixed in
  all but one: \<open>st_trip_id\<close> and \<open>st_stop_id\<close> are \<^verbatim>\<open>StopTime.trip_id\<close> and
  \<^verbatim>\<open>StopTime.stop_id\<close>, \<open>r_route_id\<close> is \<^verbatim>\<open>Route.route_id\<close>.
\<close>

record Stop =
  stop_id :: string
  stop_code :: string
  stop_name :: string
  stop_lat :: jsnum
  stop_lon :: jsnum

record StopTime =
  st_trip_id :: string
  arrival_time :: string
  departure_time :: string
  st_stop_id :: string
  stop_sequence :: jsnum

record Trip =
  trip_id :: string
  route_id :: string
  trip_headsign :: string
  trip_short_name :: string

record Route =
  r_route_id :: string
  route_short_name :: string
  route_long_name :: string

record CandidateTrip =
  trip :: Trip
  route :: "Route option"
  boardStop :: Stop
  alightStop :: Stop
  boardTime :: string
  alightTime :: string
  boardSequence :: jsnum
  alightSequence :: jsnum

record TransferPlan =
  firstLeg :: CandidateTrip
  secondLeg :: CandidateTrip
  transferStop :: Stop
  layoverMinutes :: jsnum
  totalMinutes :: jsnum

record LatLng =
  lat :: jsnum
  lng :: jsnum

record AddressResult =
  address :: string
  location :: LatLng

text \<open>The three shapes of the object \<^verbatim>\<open>planResult\<close> returns, by its \<^verbatim>\<open>kind\<close>.\<close>

datatype PlanResult =
  ErrorResult string
| DirectResult CandidateTrip "CandidateTrip list" "string option"
| TransferResult TransferPlan "TransferPlan list" "string option"

type_synonym StopTimesByTrip = "string \<rightharpoonup> StopTime list"

text \<open>
  The great-circle distance \<^verbatim>\<open>haversineDistanceKm(stop, lat, lon)\<close> is floating-point
  trigonometry; the planner only compares its results, so it is the parameter \<open>hav\<close>.
\<close>

type_synonym Haversine = "Stop \<Rightarrow> jsnum \<Rightarrow> jsnum \<Rightarrow> jsnum"

section \<open>Array helpers\<close>

text \<open>\<^verbatim>\<open>Array.prototype.findIndex\<close>: the first index whose element passes, or -1.\<close>

fun findIndexFrom :: "('a \<Rightarrow> nat \<Rightarrow> bool) \<Rightarrow> nat \<Rightarrow> 'a list \<Rightarrow> int" where
  "findIndexFrom P i [] = - 1"
| "findIndexFrom P i (x # xs) = (if P x i then int i else findIndexFrom P (Suc i) xs)"

definition findIndex :: "('a \<Rightarrow> nat \<Rightarrow> bool) \<Rightarrow> 'a list \<Rightarrow> int" where
  "findIndex P xs = findIndexFrom P 0 xs"

text \<open>
  \<^verbatim>\<open>Array.prototype.sort(compareFn)\<close>: a comparator result of \<^verbatim>\<open>NaN\<close> counts as 0, and
  the sort is stable. With a consistent comparator every stable sort returns the same
  array; with an inconsistent one (a comparator that returns \<^verbatim>\<open>NaN\<close> for some pairs
  only) ECMAScript leaves the order to the engine. The model is the insertion sort that
  engines run on short arrays: each element, taken left to right, moves left past the
  elements it compares strictly below and stops at the first one it does not.
  \<open>insertSorted\<close> works on the reversed prefix (last element first).
\<close>

definition sortCompare :: "('a \<Rightarrow> 'a \<Rightarrow> jsnum) \<Rightarrow> 'a \<Rightarrow> 'a \<Rightarrow> jsnum" where
  "sortCompare compareFn x y = (let v = compareFn x y in if v = NaN then Fin 0 else v)"

fun insertSorted :: "('a \<Rightarrow> 'a \<Rightarrow> jsnum) \<Rightarrow> 'a \<Rightarrow> 'a list \<Rightarrow> 'a list" where
  "insertSorted compareFn x [] = [x]"
| "insertSorted compareFn x (y # ys) =
     (if js_lt (sortCompare compareFn x y) (Fin 0) then y # insertSorted compareFn x ys
      else x # y # ys)"

definition sortJs :: "('a \<Rightarrow> 'a \<Rightarrow> jsnum) \<Rightarrow> 'a list \<Rightarrow> 'a list" where
  "sortJs compareFn xs = rev (foldl (\<lambda>acc x. insertSorted compareFn x acc) [] xs)"

section \<open>The reachability filter\<close>








section \<open>The itinerary search: \<^verbatim>\<open>planResult\<close>\<close>

text \<open>
  The local function \<^verbatim>\<open>pickClosestStopAfterBoard\<close>: among the stop-times after the
  boarding index whose arrival is not at or before the boarding minutes and whose stop
  is known, the first one at the least distance from the destination location.
\<close>

definition pickClosestStopAfterBoard ::
  "(string \<Rightarrow> jsnum) \<Rightarrow> Haversine \<Rightarrow> (string \<rightharpoonup> Stop) \<Rightarrow> LatLng option \<Rightarrow>
   StopTime list \<Rightarrow> nat \<Rightarrow> jsnum \<Rightarrow> (StopTime \<times> Stop \<times> jsnum) option" where
  "pickClosestStopAfterBoard N hav stopById destinationLocation stopTimes boardIndex boardMinutes =
     (case destinationLocation of
        None \<Rightarrow> None
      | Some loc \<Rightarrow>
          fold (\<lambda>i closest.
              let stopTime = stopTimes ! i
              in if js_le (timeToMinutes N (arrival_time stopTime)) boardMinutes then closest
                 else (case stopById (st_stop_id stopTime) of
                         None \<Rightarrow> closest
                       | Some stop \<Rightarrow>
                           (let distanceKm = hav stop (lat loc) (lng loc)
                            in case closest of
                                 None \<Rightarrow> Some (stopTime, stop, distanceKm)
                               | Some (_, _, closestKm) \<Rightarrow>
                                   if js_lt distanceKm closestKm
                                   then Some (stopTime, stop, distanceKm) else closest)))
            [boardIndex + 1 ..< length stopTimes] None)"

text \<open>
  The exact-match rule of the direct enumeration: the first stop-time after the boarding
  index that names the destination, kept when its arrival is strictly after the boarding
  departure. The result is the pair \<^verbatim>\<open>(alightTime, alightStop)\<close> as the source holds it
  before the fallback; either may be \<^verbatim>\<open>null\<close>.
\<close>

definition exactAlight ::
  "(string \<Rightarrow> jsnum) \<Rightarrow> (string \<rightharpoonup> Stop) \<Rightarrow> Stop \<Rightarrow> StopTime list \<Rightarrow> int \<Rightarrow>
   StopTime option \<times> Stop option" where
  "exactAlight N stopById destination stopTimes boardIndex =
     (let boardT = stopTimes ! nat boardIndex;
          destinationIndex =
            findIndex (\<lambda>time index. int index > boardIndex \<and> st_stop_id time = stop_id destination)
              stopTimes
      in if destinationIndex \<ge> 0 then
           (let candidate = stopTimes ! nat destinationIndex
            in if js_gt (timeToMinutes N (arrival_time candidate))
                    (timeToMinutes N (departure_time boardT))
               then (Some candidate, stopById (st_stop_id candidate))
               else (None, None))
         else (None, None))"

text \<open>The alighting choice: the exact match, else the proximity fallback.\<close>

definition chooseAlight ::
  "(string \<Rightarrow> jsnum) \<Rightarrow> Haversine \<Rightarrow> (string \<rightharpoonup> Stop) \<Rightarrow> LatLng option \<Rightarrow> Stop \<Rightarrow>
   StopTime list \<Rightarrow> int \<Rightarrow> StopTime option \<times> Stop option" where
  "chooseAlight N hav stopById destinationLocation destination stopTimes boardIndex =
     (let boardT = stopTimes ! nat boardIndex;
          exact = exactAlight N stopById destination stopTimes boardIndex
      in if fst exact = None \<or> snd exact = None then
           (case pickClosestStopAfterBoard N hav stopById destinationLocation stopTimes
                   (nat boardIndex) (timeToMinutes N (departure_time boardT)) of
              Some (stopTime, stop, _) \<Rightarrow> (Some stopTime, Some stop)
            | None \<Rightarrow> exact)
         else exact)"

text \<open>The body of the first \<^verbatim>\<open>trips.forEach\<close>: the candidate a trip contributes, if any.\<close>

definition directCandidate ::
  "(string \<Rightarrow> jsnum) \<Rightarrow> Haversine \<Rightarrow> StopTimesByTrip \<Rightarrow> (string \<rightharpoonup> Stop) \<Rightarrow>
   (string \<rightharpoonup> Route) \<Rightarrow> LatLng option \<Rightarrow> Stop \<Rightarrow> Stop \<Rightarrow> Trip \<Rightarrow> CandidateTrip option" where
  "directCandidate N hav stopTimesByTrip stopById routeById destinationLocation origin destination t =
     (case stopTimesByTrip (trip_id t) of
        None \<Rightarrow> None
      | Some stopTimes \<Rightarrow>
          (let boardIndex = findIndex (\<lambda>time _. st_stop_id time = stop_id origin) stopTimes
           in if boardIndex < 0 then None
              else
                (let boardT = stopTimes ! nat boardIndex
                 in case chooseAlight N hav stopById destinationLocation destination
                           stopTimes boardIndex of
                      (Some alightT, Some alight) \<Rightarrow>
                        if js_ge (stop_sequence boardT) (stop_sequence alightT) then None
                        else (case stopById (st_stop_id boardT) of
                                None \<Rightarrow> None
                              | Some board \<Rightarrow>
                                  Some \<lparr> trip = t, route = routeById (route_id t),
                                         boardStop = board, alightStop = alight,
                                         boardTime = departure_time boardT,
                                         alightTime = arrival_time alightT,
                                         boardSequence = stop_sequence boardT,
                                         alightSequence = stop_sequence alightT \<rparr>)
                    | _ \<Rightarrow> None)))"

definition candidates ::
  "(string \<Rightarrow> jsnum) \<Rightarrow> Haversine \<Rightarrow> Trip list \<Rightarrow> StopTimesByTrip \<Rightarrow> (string \<rightharpoonup> Stop) \<Rightarrow>
   (string \<rightharpoonup> Route) \<Rightarrow> LatLng option \<Rightarrow> Stop \<Rightarrow> Stop \<Rightarrow> CandidateTrip list" where
  "candidates N hav trips stopTimesByTrip stopById routeById destinationLocation origin destination =
     List.map_filter
       (directCandidate N hav stopTimesByTrip stopById routeById destinationLocation origin destination)
       trips"

definition serviceNoteText :: string where
  "serviceNoteText = ''No more departures today. Showing the next available trip.''"

definition byBoardTime :: "(string \<Rightarrow> jsnum) \<Rightarrow> CandidateTrip \<Rightarrow> CandidateTrip \<Rightarrow> jsnum" where
  "byBoardTime N a b = js_sub (timeToMinutes N (boardTime a)) (timeToMinutes N (boardTime b))"

text \<open>
  The direct selection, for a non-empty \<^verbatim>\<open>sortedByTime\<close>. The destructuring
  \<^verbatim>\<open>const [nextTrip, ...alternatives] = list\<close> is only reached on a non-empty list.
\<close>

definition selectDirect :: "(string \<Rightarrow> jsnum) \<Rightarrow> jsnum \<Rightarrow> CandidateTrip list \<Rightarrow> PlanResult" where
  "selectDirect N nowMinutes sortedByTime =
     (let upcoming = filter (\<lambda>candidate. js_ge (timeToMinutes N (boardTime candidate)) nowMinutes)
                       sortedByTime
      in if length upcoming = 0
         then DirectResult (hd sortedByTime) (tl sortedByTime) (Some serviceNoteText)
         else DirectResult (hd upcoming) (tl upcoming) None)"

definition createLeg ::
  "(string \<rightharpoonup> Stop) \<Rightarrow> (string \<rightharpoonup> Route) \<Rightarrow> Trip \<Rightarrow> StopTime \<Rightarrow> StopTime \<Rightarrow> CandidateTrip option" where
  "createLeg stopById routeById t boardT alightT =
     (case (stopById (st_stop_id boardT), stopById (st_stop_id alightT)) of
        (Some board, Some alight) \<Rightarrow>
          Some \<lparr> trip = t, route = routeById (route_id t),
                 boardStop = board, alightStop = alight,
                 boardTime = departure_time boardT, alightTime = arrival_time alightT,
                 boardSequence = stop_sequence boardT, alightSequence = stop_sequence alightT \<rparr>
      | _ \<Rightarrow> None)"

text \<open>
  The map \<^verbatim>\<open>leg2ByStop\<close>: every leg that ends at the destination, by boarding stop id.
  \<open>leg2Insert\<close> is the body of the inner \<^verbatim>\<open>for\<close> loop, \<open>leg2OfTrip\<close> the body of the
  \<^verbatim>\<open>trips.forEach\<close>.
\<close>

definition leg2Insert ::
  "(string \<rightharpoonup> Stop) \<Rightarrow> (string \<rightharpoonup> Route) \<Rightarrow> Trip \<Rightarrow> StopTime list \<Rightarrow> StopTime \<Rightarrow> nat \<Rightarrow>
   (string \<rightharpoonup> CandidateTrip list) \<Rightarrow> (string \<rightharpoonup> CandidateTrip list)" where
  "leg2Insert stopById routeById t stopTimes alightT i m =
     (let boardT = stopTimes ! i
      in case createLeg stopById routeById t boardT alightT of
           None \<Rightarrow> m
         | Some leg2 \<Rightarrow>
             (let list = (case m (st_stop_id boardT) of None \<Rightarrow> [] | Some l \<Rightarrow> l)
              in m(st_stop_id boardT \<mapsto> list @ [leg2])))"

definition leg2OfTrip ::
  "StopTimesByTrip \<Rightarrow> (string \<rightharpoonup> Stop) \<Rightarrow> (string \<rightharpoonup> Route) \<Rightarrow> Stop \<Rightarrow> Trip \<Rightarrow>
   (string \<rightharpoonup> CandidateTrip list) \<Rightarrow> (string \<rightharpoonup> CandidateTrip list)" where
  "leg2OfTrip stopTimesByTrip stopById routeById destination t m =
     (case stopTimesByTrip (trip_id t) of
        None \<Rightarrow> m
      | Some stopTimes \<Rightarrow>
          (let destIndex = findIndex (\<lambda>time _. st_stop_id time = stop_id destination) stopTimes
           in if destIndex \<le> 0 then m
              else
                (let alightT = stopTimes ! nat destIndex
                 in fold (leg2Insert stopById routeById t stopTimes alightT)
                      [0 ..< nat destIndex] m)))"

definition leg2ByStop ::
  "Trip list \<Rightarrow> StopTimesByTrip \<Rightarrow> (string \<rightharpoonup> Stop) \<Rightarrow> (string \<rightharpoonup> Route) \<Rightarrow> Stop \<Rightarrow>
   (string \<rightharpoonup> CandidateTrip list)" where
  "leg2ByStop trips stopTimesByTrip stopById routeById destination =
     fold (leg2OfTrip stopTimesByTrip stopById routeById destination) trips Map.empty"

text \<open>The inner loop over \<^verbatim>\<open>leg2Options\<close>: the pairings of one first leg.\<close>

definition pairings ::
  "(string \<Rightarrow> jsnum) \<Rightarrow> CandidateTrip \<Rightarrow> CandidateTrip list \<Rightarrow> TransferPlan list" where
  "pairings N leg1 leg2Options =
     concat (map (\<lambda>leg2.
        let layover = minutesBetween N (alightTime leg1) (boardTime leg2)
        in if js_lt layover (Fin 0) then []
           else
             (let total = minutesBetween N (boardTime leg1) (alightTime leg2)
              in if js_lt total (Fin 0) then []
                 else [\<lparr> firstLeg = leg1, secondLeg = leg2, transferStop = alightStop leg1,
                         layoverMinutes = layover, totalMinutes = total \<rparr>]))
       leg2Options)"

text \<open>The body of the third \<^verbatim>\<open>trips.forEach\<close>: the plans whose first leg rides one trip.\<close>

definition tripTransferPlans ::
  "(string \<Rightarrow> jsnum) \<Rightarrow> StopTimesByTrip \<Rightarrow> (string \<rightharpoonup> Stop) \<Rightarrow> (string \<rightharpoonup> Route) \<Rightarrow>
   (string \<rightharpoonup> CandidateTrip list) \<Rightarrow> Stop \<Rightarrow> Trip \<Rightarrow> TransferPlan list" where
  "tripTransferPlans N stopTimesByTrip stopById routeById leg2Map origin t =
     (case stopTimesByTrip (trip_id t) of
        None \<Rightarrow> []
      | Some stopTimes \<Rightarrow>
          (let originIndex = findIndex (\<lambda>time _. st_stop_id time = stop_id origin) stopTimes
           in if originIndex < 0 \<or> originIndex \<ge> int (length stopTimes) - 1 then []
              else
                (let boardT = stopTimes ! nat originIndex
                 in concat (map (\<lambda>i.
                      let alightT = stopTimes ! i
                      in case createLeg stopById routeById t boardT alightT of
                           None \<Rightarrow> []
                         | Some leg1 \<Rightarrow>
                             (case leg2Map (st_stop_id alightT) of
                                None \<Rightarrow> []
                              | Some leg2Options \<Rightarrow> pairings N leg1 leg2Options))
                     [nat originIndex + 1 ..< length stopTimes]))))"

definition transferPlans ::
  "(string \<Rightarrow> jsnum) \<Rightarrow> Trip list \<Rightarrow> StopTimesByTrip \<Rightarrow> (string \<rightharpoonup> Stop) \<Rightarrow>
   (string \<rightharpoonup> Route) \<Rightarrow> Stop \<Rightarrow> Stop \<Rightarrow> TransferPlan list" where
  "transferPlans N trips stopTimesByTrip stopById routeById origin destination =
     concat (map
       (tripTransferPlans N stopTimesByTrip stopById routeById
          (leg2ByStop trips stopTimesByTrip stopById routeById destination) origin)
       trips)"

definition byBoardThenTotal :: "(string \<Rightarrow> jsnum) \<Rightarrow> TransferPlan \<Rightarrow> TransferPlan \<Rightarrow> jsnum" where
  "byBoardThenTotal N a b =
     (let timeDiff = js_sub (timeToMinutes N (boardTime (firstLeg a)))
                       (timeToMinutes N (boardTime (firstLeg b)))
      in if js_strict_ne timeDiff (Fin 0) then timeDiff
         else js_sub (totalMinutes a) (totalMinutes b))"

definition selectTransfer :: "(string \<Rightarrow> jsnum) \<Rightarrow> jsnum \<Rightarrow> TransferPlan list \<Rightarrow> PlanResult" where
  "selectTransfer N nowMinutes sortedTransfers =
     (let upcomingTransfers =
            filter (\<lambda>candidate. js_ge (timeToMinutes N (boardTime (firstLeg candidate))) nowMinutes)
              sortedTransfers
      in if length upcomingTransfers = 0
         then TransferResult (hd sortedTransfers) (tl sortedTransfers) (Some serviceNoteText)
         else TransferResult (hd upcomingTransfers) (tl upcomingTransfers) None)"

text \<open>
  \<^verbatim>\<open>planResult\<close>: \<^verbatim>\<open>null\<close> (here \<open>None\<close>) while a stop is not chosen, else one of the
  three results. \<open>destinationResult\<close> is the geocoded destination address, if any.
\<close>

definition planResult ::
  "(string \<Rightarrow> jsnum) \<Rightarrow> Haversine \<Rightarrow> Trip list \<Rightarrow> StopTimesByTrip \<Rightarrow> (string \<rightharpoonup> Stop) \<Rightarrow>
   (string \<rightharpoonup> Route) \<Rightarrow> AddressResult option \<Rightarrow> jsnum \<Rightarrow> Stop option \<Rightarrow> Stop option \<Rightarrow>
   PlanResult option" where
  "planResult N hav trips stopTimesByTrip stopById routeById destinationResult nowMinutes
       originOpt destinationOpt =
     (case (originOpt, destinationOpt) of
        (Some origin, Some destination) \<Rightarrow>
          if stop_id origin = stop_id destination
          then Some (ErrorResult ''Pick two different stops to build a route.'')
          else
            (let destinationLocation = map_option location destinationResult;
                 sortedByTime =
                   sortJs (byBoardTime N)
                     (candidates N hav trips stopTimesByTrip stopById routeById
                        destinationLocation origin destination)
             in if length sortedByTime > 0 then Some (selectDirect N nowMinutes sortedByTime)
                else
                  (let plans = transferPlans N trips stopTimesByTrip stopById routeById
                                 origin destination
                   in if length plans = 0
                      then Some (ErrorResult ''No trips found between those stops.'')
                      else Some (selectTransfer N nowMinutes (sortJs (byBoardThenTotal N) plans))))
      | _ \<Rightarrow> None)"


section \<open>Reference notions used in the statements\<close>






text \<open>A transfer plan whose two durations are the differences of its legs' times.\<close>

definition joined :: "(string \<Rightarrow> jsnum) \<Rightarrow> TransferPlan \<Rightarrow> bool" where
  "joined N p =
     (layoverMinutes p =
        js_sub (timeToMinutes N (boardTime (secondLeg p))) (timeToMinutes N (alightTime (firstLeg p))) \<and>
      totalMinutes p =
        js_sub (timeToMinutes N (alightTime (secondLeg p))) (timeToMinutes N (boardTime (firstLeg p))) \<and>
      transferStop p = alightStop (firstLeg p) \<and>
      \<not> js_lt (layoverMinutes p) (Fin 0) \<and> \<not> js_lt (totalMinutes p) (Fin 0))"


text \<open>The boarding minutes of a candidate and of a plan's first leg.\<close>

definition boardMinutes :: "(string \<Rightarrow> jsnum) \<Rightarrow> CandidateTrip \<Rightarrow> jsnum" where
  "boardMinutes N c = timeToMinutes N (boardTime c)"









text \<open>
  Index \<open>d\<close> holds the first stop-time after the boarding index \<open>b\<close> that names the
  destination stop.
\<close>

definition firstDestinationAfter :: "StopTime list \<Rightarrow> nat \<Rightarrow> Stop \<Rightarrow> nat \<Rightarrow> bool" where
  "firstDestinationAfter stopTimes b destination d =
     (b < d \<and> d < length stopTimes \<and> st_stop_id (stopTimes ! d) = stop_id destination \<and>
      list_all (\<lambda>j. st_stop_id (stopTimes ! j) \<noteq> stop_id destination) [Suc b ..< d])"

text \<open>
  The exact-match rule succeeds at index \<open>d\<close> with stop \<open>s\<close>: the first destination
  stop-time after boarding arrives strictly after the boarding departure, and its stop
  is known.
\<close>

definition exactMatch ::
  "(string \<Rightarrow> jsnum) \<Rightarrow> (string \<rightharpoonup> Stop) \<Rightarrow> StopTime list \<Rightarrow> nat \<Rightarrow> Stop \<Rightarrow> nat \<Rightarrow> Stop \<Rightarrow> bool" where
  "exactMatch N stopById stopTimes b destination d s =
     (firstDestinationAfter stopTimes b destination d \<and>
      js_gt (timeToMinutes N (arrival_time (stopTimes ! d)))
            (timeToMinutes N (departure_time (stopTimes ! b))) \<and>
      stopById (st_stop_id (stopTimes ! d)) = Some s)"

text \<open>The candidate that boards at index \<open>b\<close> and alights at index \<open>d\<close>, stop \<open>s\<close>.\<close>

definition rideBetween ::
  "(string \<rightharpoonup> Stop) \<Rightarrow> (string \<rightharpoonup> Route) \<Rightarrow> Trip \<Rightarrow> StopTime list \<Rightarrow> nat \<Rightarrow> nat \<Rightarrow> Stop \<Rightarrow>
   CandidateTrip option" where
  "rideBetween stopById routeById t stopTimes b d s =
     (if js_ge (stop_sequence (stopTimes ! b)) (stop_sequence (stopTimes ! d)) then None
      else (case stopById (st_stop_id (stopTimes ! b)) of
              None \<Rightarrow> None
            | Some board \<Rightarrow>
                Some \<lparr> trip = t, route = routeById (route_id t),
                       boardStop = board, alightStop = s,
                       boardTime = departure_time (stopTimes ! b),
                       alightTime = arrival_time (stopTimes ! d),
                       boardSequence = stop_sequence (stopTimes ! b),
                       alightSequence = stop_sequence (stopTimes ! d) \<rparr>))"








section \<open>Example schedules\<close>

definition mkStop :: "string \<Rightarrow> Stop" where
  "mkStop sid = \<lparr> stop_id = sid, stop_code = sid, stop_name = sid,
                  stop_lat = Fin 0, stop_lon = Fin 0 \<rparr>"

definition mkTime :: "string \<Rightarrow> string \<Rightarrow> string \<Rightarrow> rat \<Rightarrow> StopTime" where
  "mkTime tid sid t n = \<lparr> st_trip_id = tid, arrival_time = t, departure_time = t,
                          st_stop_id = sid, stop_sequence = Fin n \<rparr>"

definition mkTrip :: "string \<Rightarrow> Trip" where
  "mkTrip tid = \<lparr> trip_id = tid, route_id = ''r1'', trip_headsign = [], trip_short_name = [] \<rparr>"

definition flatHav :: Haversine where
  "flatHav s a b = Fin 0"

definition stopsOf :: "string list \<Rightarrow> (string \<rightharpoonup> Stop)" where
  "stopsOf ids = map_of (map (\<lambda>sid. (sid, mkStop sid)) ids)"

text \<open>
  The transfer example of the specification: trip 1 runs A (08:00) to T (08:20),
  trip 2 runs T (08:30) to B (08:45).
\<close>

definition joinTrips :: "Trip list" where
  "joinTrips = [mkTrip ''t1'', mkTrip ''t2'']"

definition joinTimes :: StopTimesByTrip where
  "joinTimes = map_of
     [(''t1'', [mkTime ''t1'' ''A'' ''08:00:00'' 1, mkTime ''t1'' ''T'' ''08:20:00'' 2]),
      (''t2'', [mkTime ''t2'' ''T'' ''08:30:00'' 1, mkTime ''t2'' ''B'' ''08:45:00'' 2])]"

definition joinStops :: "string \<rightharpoonup> Stop" where
  "joinStops = stopsOf [''A'', ''T'', ''B'']"

text \<open>
  One trip A, T, B whose three times are all 08:00: the ride from A to B does not arrive
  strictly after it departs.
\<close>

definition sameTrips :: "Trip list" where
  "sameTrips = [mkTrip ''t1'']"

definition sameTimes :: StopTimesByTrip where
  "sameTimes = map_of
     [(''t1'', [mkTime ''t1'' ''A'' ''08:00:00'' 1, mkTime ''t1'' ''T'' ''08:00:00'' 2,
               mkTime ''t1'' ''B'' ''08:00:00'' 3])]"

definition sameStops :: "string \<rightharpoonup> Stop" where
  "sameStops = stopsOf [''A'', ''T'', ''B'']"

text \<open>The leg that boards a trip at one of its stop-times and alights at another.\<close>

definition legOf :: "Trip \<Rightarrow> StopTime \<Rightarrow> StopTime \<Rightarrow> CandidateTrip" where
  "legOf t b a = \<lparr> trip = t, route = None,
                   boardStop = mkStop (st_stop_id b), alightStop = mkStop (st_stop_id a),
                   boardTime = departure_time b, alightTime = arrival_time a,
                   boardSequence = stop_sequence b, alightSequence = stop_sequence a \<rparr>"

definition joinPlan :: TransferPlan where
  "joinPlan = \<lparr> firstLeg = legOf (mkTrip ''t1'') (mkTime ''t1'' ''A'' ''08:00:00'' 1)
                              (mkTime ''t1'' ''T'' ''08:20:00'' 2),
                secondLeg = legOf (mkTrip ''t2'') (mkTime ''t2'' ''T'' ''08:30:00'' 1)
                              (mkTime ''t2'' ''B'' ''08:45:00'' 2),
                transferStop = mkStop ''T'', layoverMinutes = Fin 10, totalMinutes = Fin 45 \<rparr>"

definition samePlan :: TransferPlan where
  "samePlan = \<lparr> firstLeg = legOf (mkTrip ''t1'') (mkTime ''t1'' ''A'' ''08:00:00'' 1)
                              (mkTime ''t1'' ''T'' ''08:00:00'' 2),
                secondLeg = legOf (mkTrip ''t1'') (mkTime ''t1'' ''T'' ''08:00:00'' 2)
                              (mkTime ''t1'' ''B'' ''08:00:00'' 3),
                transferStop = mkStop ''T'', layoverMinutes = Fin 0, totalMinutes = Fin 0 \<rparr>"


definition rollTimes :: StopTimesByTrip where
  "rollTimes = map_of
     [(''t1'', [mkTime ''t1'' ''A'' ''08:00:00'' 1, mkTime ''t1'' ''B'' ''08:10:00'' 2]),
      (''t2'', [mkTime ''t2'' ''A'' ''09:00:00'' 1, mkTime ''t2'' ''B'' ''09:10:00'' 2])]"

definition rollStops :: "string \<rightharpoonup> Stop" where
  "rollStops = stopsOf [''A'', ''B'']"






definition gapAddress :: AddressResult where
  "gapAddress = \<lparr> address = ''1 Main St'', location = \<lparr> lat = Fin 0, lng = Fin 0 \<rparr> \<rparr>"







text \<open>
  One trip A (08:00), B (08:00), C (08:30): stop B is reached at the minute of the
  departure from A.
\<close>

definition detourTimes :: StopTimesByTrip where
  "detourTimes = map_of
     [(''x1'', [mkTime ''x1'' ''A'' ''08:00:00'' 1, mkTime ''x1'' ''B'' ''08:00:00'' 2,
               mkTime ''x1'' ''C'' ''08:30:00'' 3])]"

definition detourStops :: "string \<rightharpoonup> Stop" where
  "detourStops = stopsOf [''A'', ''B'', ''C'']"

definition detourRide :: CandidateTrip where
  "detourRide = legOf (mkTrip ''x1'') (mkTime ''x1'' ''A'' ''08:00:00'' 1)
                  (mkTime ''x1'' ''C'' ''08:30:00'' 3)"








section \<open>Time conversion\<close>

lemma js_add_NaN_right [simp]: "js_add x NaN = NaN"
  by (cases x) simp_all









text \<open>
  Claim C7. With the same stop as origin and destination, whatever the time, the
  schedule and the other arguments are, the result is the error
  \<^verbatim>\<open>Pick two different stops to build a route.\<close>: nothing of the schedule is consulted.
\<close>

theorem plan_same_stop:
  "planResult N hav trips stopTimesByTrip stopById routeById destinationResult nowMinutes
     (Some S) (Some S) = Some (ErrorResult ''Pick two different stops to build a route.'')"
  by (simp add: planResult_def)














section \<open>The sort\<close>

lemma mset_insertSorted: "mset (insertSorted cmp x ys) = add_mset x (mset ys)"
  by (induction ys) auto

lemma mset_insert_all:
  "mset (foldl (\<lambda>acc x. insertSorted cmp x acc) acc xs) = mset acc + mset xs"
  by (induction xs arbitrary: acc) (auto simp: mset_insertSorted)

lemma mset_sortJs: "mset (sortJs cmp xs) = mset xs"
  by (simp add: sortJs_def mset_insert_all)

lemma set_sortJs: "set (sortJs cmp xs) = set xs"
  by (metis mset_sortJs set_mset_mset)

lemma length_sortJs: "length (sortJs cmp xs) = length xs"
  by (metis mset_sortJs size_mset)

lemma sortJs_Nil_iff: "sortJs cmp xs = [] \<longleftrightarrow> xs = []"
  by (metis length_sortJs length_0_conv)






section \<open>The shape of the result\<close>

lemma planResult_distinct:
  assumes "stop_id origin \<noteq> stop_id destination"
  shows "planResult N hav trips stopTimesByTrip stopById routeById destinationResult nowMinutes
           (Some origin) (Some destination) =
         Some (if candidates N hav trips stopTimesByTrip stopById routeById
                    (map_option location destinationResult) origin destination \<noteq> []
               then selectDirect N nowMinutes
                      (sortJs (byBoardTime N)
                         (candidates N hav trips stopTimesByTrip stopById routeById
                            (map_option location destinationResult) origin destination))
               else if transferPlans N trips stopTimesByTrip stopById routeById origin destination = []
               then ErrorResult ''No trips found between those stops.''
               else selectTransfer N nowMinutes
                      (sortJs (byBoardThenTotal N)
                         (transferPlans N trips stopTimesByTrip stopById routeById origin destination)))"
  using assms by (simp add: planResult_def Let_def sortJs_Nil_iff)


lemma selectTransfer_shape:
  assumes "xs \<noteq> []"
  shows "\<exists>nxt alts note. selectTransfer N now xs = TransferResult nxt alts note \<and>
           (let upcoming = filter (\<lambda>p. js_ge (timeToMinutes N (boardTime (firstLeg p))) now) xs
            in if upcoming = [] then nxt # alts = xs \<and> note = Some serviceNoteText
               else nxt # alts = upcoming \<and> note = None)"
  using assms by (simp add: selectTransfer_def Let_def)

text \<open>
  Claim C4. The planner tells stops apart by \<^verbatim>\<open>stop_id\<close>. For stops of different ids the
  result is an error exactly when the direct enumeration yields no candidate and the
  transfer search builds no plan, and the message is then
  \<^verbatim>\<open>No trips found between those stops.\<close>; so, apart from equal stops, this is the only
  error.
\<close>

theorem no_coverage_error:
  assumes "stop_id origin \<noteq> stop_id destination"
  shows "(planResult N hav trips stopTimesByTrip stopById routeById destinationResult nowMinutes
            (Some origin) (Some destination) = Some (ErrorResult msg)) =
         (candidates N hav trips stopTimesByTrip stopById routeById
            (map_option location destinationResult) origin destination = [] \<and>
          transferPlans N trips stopTimesByTrip stopById routeById origin destination = [] \<and>
          msg = ''No trips found between those stops.'')"
proof -
  have d: "selectDirect N nowMinutes xs \<noteq> ErrorResult msg" for xs
    by (simp add: selectDirect_def Let_def)
  have t: "selectTransfer N nowMinutes ys \<noteq> ErrorResult msg" for ys
    by (simp add: selectTransfer_def Let_def)
  show ?thesis
    unfolding planResult_distinct [OF assms] using d t by auto
qed

theorem no_coverage_error_witness:
  "candidates NumberDec flatHav joinTrips joinTimes joinStops Map.empty None
     (mkStop ''B'') (mkStop ''A'') = [] \<and>
   transferPlans NumberDec joinTrips joinTimes joinStops Map.empty (mkStop ''B'') (mkStop ''A'') = []"
proof -
  have ne: "stop_id (mkStop ''B'') \<noteq> stop_id (mkStop ''A'')"
    by (simp add: mkStop_def)
  have "planResult NumberDec flatHav joinTrips joinTimes joinStops Map.empty None (Fin 0)
          (Some (mkStop ''B'')) (Some (mkStop ''A'')) =
        Some (ErrorResult ''No trips found between those stops.'')"
    by code_simp
  then show ?thesis
    using no_coverage_error [OF ne, of NumberDec flatHav joinTrips joinTimes joinStops
        Map.empty None "Fin 0" "''No trips found between those stops.''"]
    by simp
qed

section \<open>The transfer join\<close>

lemma pairings_member:
  assumes "p \<in> set (pairings N leg1 leg2Options)"
  shows "firstLeg p = leg1 \<and> secondLeg p \<in> set leg2Options \<and>
         transferStop p = alightStop leg1 \<and>
         layoverMinutes p = minutesBetween N (alightTime leg1) (boardTime (secondLeg p)) \<and>
         totalMinutes p = minutesBetween N (boardTime leg1) (alightTime (secondLeg p)) \<and>
         \<not> js_lt (layoverMinutes p) (Fin 0) \<and> \<not> js_lt (totalMinutes p) (Fin 0)"
  using assms by (auto simp: pairings_def Let_def split: if_splits)

lemma pairings_joined: "p \<in> set (pairings N leg1 leg2Options) \<Longrightarrow> joined N p"
  using pairings_member [of p N leg1 leg2Options] unfolding joined_def minutesBetween_def by blast

lemma tripTransferPlans_joined:
  assumes "p \<in> set (tripTransferPlans N stopTimesByTrip stopById routeById leg2Map origin t)"
  shows "joined N p"
  using assms
  by (auto simp: tripTransferPlans_def Let_def split: option.splits if_splits
      dest: pairings_joined)

lemma transferPlans_joined:
  assumes "p \<in> set (transferPlans N trips stopTimesByTrip stopById routeById origin destination)"
  shows "joined N p"
  using assms by (auto simp: transferPlans_def dest: tripTransferPlans_joined)

lemma planResult_transfer_members:
  assumes "planResult N hav trips stopTimesByTrip stopById routeById destinationResult nowMinutes
             (Some origin) (Some destination) = Some (TransferResult nxt alts note)"
  shows "set (nxt # alts) \<subseteq>
         set (transferPlans N trips stopTimesByTrip stopById routeById origin destination)"
proof -
  let ?plans = "transferPlans N trips stopTimesByTrip stopById routeById origin destination"
  have ne: "stop_id origin \<noteq> stop_id destination"
    using assms by (auto simp: planResult_def)
  have d: "selectDirect N nowMinutes xs \<noteq> TransferResult nxt alts note" for xs
    by (simp add: selectDirect_def Let_def)
  have s: "selectTransfer N nowMinutes (sortJs (byBoardThenTotal N) ?plans) = TransferResult nxt alts note"
    and nonempty: "?plans \<noteq> []"
    using assms d unfolding planResult_distinct [OF ne] by (auto split: if_splits)
  have "sortJs (byBoardThenTotal N) ?plans \<noteq> []"
    using nonempty by (simp add: sortJs_Nil_iff)
  from selectTransfer_shape [OF this, of N nowMinutes] s
  have "set (nxt # alts) \<subseteq> set (sortJs (byBoardThenTotal N) ?plans)"
    by (auto simp: Let_def split: if_splits) (metis filter_is_subset list.set_intros subsetD)+
  then show ?thesis
    by (simp add: set_sortJs)
qed

text \<open>
  Claim C1. Every plan of a transfer result has as layover the second leg's boarding
  minutes minus the first leg's alighting minutes, as total the second leg's alighting
  minutes minus the first leg's boarding minutes, as transfer stop the first leg's
  alighting stop, and neither duration is negative: the pairings with a negative one
  were dropped. On the example (trip 1 from A at 08:00 to T at 08:20, trip 2 from T at
  08:30 to B at 08:45) the plan from A to B at time 0 is the one transfer with layover
  10, total 45 and transfer stop T.
\<close>

theorem transfer_join:
  "(planResult N hav trips stopTimesByTrip stopById routeById destinationResult nowMinutes
      (Some origin) (Some destination) = Some (TransferResult nxt alts note) \<longrightarrow>
    (\<forall>p \<in> set (nxt # alts).
       layoverMinutes p =
         js_sub (timeToMinutes N (boardTime (secondLeg p))) (timeToMinutes N (alightTime (firstLeg p))) \<and>
       totalMinutes p =
         js_sub (timeToMinutes N (alightTime (secondLeg p))) (timeToMinutes N (boardTime (firstLeg p))) \<and>
       transferStop p = alightStop (firstLeg p) \<and>
       \<not> js_lt (layoverMinutes p) (Fin 0) \<and> \<not> js_lt (totalMinutes p) (Fin 0))) \<and>
   planResult NumberDec flatHav joinTrips joinTimes joinStops Map.empty None (Fin 0)
     (Some (mkStop ''A'')) (Some (mkStop ''B'')) = Some (TransferResult joinPlan [] None) \<and>
   layoverMinutes joinPlan = Fin 10 \<and> totalMinutes joinPlan = Fin 45 \<and>
   transferStop joinPlan = mkStop ''T''"
proof (intro conjI impI ballI)
  fix p
  assume r: "planResult N hav trips stopTimesByTrip stopById routeById destinationResult nowMinutes
      (Some origin) (Some destination) = Some (TransferResult nxt alts note)"
    and p: "p \<in> set (nxt # alts)"
  have j: "joined N p"
    using planResult_transfer_members [OF r] p transferPlans_joined by blast
  show "layoverMinutes p =
         js_sub (timeToMinutes N (boardTime (secondLeg p))) (timeToMinutes N (alightTime (firstLeg p)))"
    "totalMinutes p =
         js_sub (timeToMinutes N (alightTime (secondLeg p))) (timeToMinutes N (boardTime (firstLeg p)))"
    "transferStop p = alightStop (firstLeg p)"
    "\<not> js_lt (layoverMinutes p) (Fin 0)" "\<not> js_lt (totalMinutes p) (Fin 0)"
    using j unfolding joined_def by blast+
next
  show "planResult NumberDec flatHav joinTrips joinTimes joinStops Map.empty None (Fin 0)
     (Some (mkStop ''A'')) (Some (mkStop ''B'')) = Some (TransferResult joinPlan [] None)"
    by code_simp
qed (simp_all add: joinPlan_def)

theorem transfer_join_witness:
  "layoverMinutes joinPlan =
     js_sub (timeToMinutes NumberDec ''08:30:00'') (timeToMinutes NumberDec ''08:20:00'') \<and>
   totalMinutes joinPlan =
     js_sub (timeToMinutes NumberDec ''08:45:00'') (timeToMinutes NumberDec ''08:00:00'') \<and>
   \<not> js_lt (layoverMinutes joinPlan) (Fin 0) \<and> \<not> js_lt (totalMinutes joinPlan) (Fin 0)"
proof -
  note t = transfer_join [of NumberDec flatHav joinTrips joinTimes joinStops Map.empty None "Fin 0"
      "mkStop ''A''" "mkStop ''B''" joinPlan "[]" None]
  have b: "boardTime (secondLeg joinPlan) = ''08:30:00''" "alightTime (firstLeg joinPlan) = ''08:20:00''"
    "alightTime (secondLeg joinPlan) = ''08:45:00''" "boardTime (firstLeg joinPlan) = ''08:00:00''"
    by (simp_all add: joinPlan_def legOf_def mkTime_def)
  from t have "layoverMinutes joinPlan =
         js_sub (timeToMinutes NumberDec (boardTime (secondLeg joinPlan)))
           (timeToMinutes NumberDec (alightTime (firstLeg joinPlan))) \<and>
       totalMinutes joinPlan =
         js_sub (timeToMinutes NumberDec (alightTime (secondLeg joinPlan)))
           (timeToMinutes NumberDec (boardTime (firstLeg joinPlan))) \<and>
       transferStop joinPlan = alightStop (firstLeg joinPlan) \<and>
       \<not> js_lt (layoverMinutes joinPlan) (Fin 0) \<and> \<not> js_lt (totalMinutes joinPlan) (Fin 0)"
    by (meson list.set_intros(1))
  then show ?thesis
    unfolding b by blast
qed

text \<open>
  Claim C9. The two legs of a returned plan can ride the same trip: on the one trip
  A, T, B whose times are all 08:00, the direct ride from A to B fails the
  strictly-after guard, and the result is the transfer at T from that trip to itself.
\<close>

theorem same_trip_transfer:
  "planResult NumberDec flatHav sameTrips sameTimes sameStops Map.empty None (Fin 0)
     (Some (mkStop ''A'')) (Some (mkStop ''B'')) = Some (TransferResult samePlan [] None) \<and>
   trip (firstLeg samePlan) = trip (secondLeg samePlan)"
proof
  show "planResult NumberDec flatHav sameTrips sameTimes sameStops Map.empty None (Fin 0)
     (Some (mkStop ''A'')) (Some (mkStop ''B'')) = Some (TransferResult samePlan [] None)"
    by code_simp
qed (simp add: samePlan_def legOf_def)

section \<open>Array search\<close>

lemma findIndexFrom_cases:
  "(findIndexFrom P k xs = - 1 \<and> (\<forall>i < length xs. \<not> P (xs ! i) (k + i))) \<or>
   (\<exists>i < length xs. findIndexFrom P k xs = int (k + i) \<and> P (xs ! i) (k + i) \<and>
      (\<forall>j < i. \<not> P (xs ! j) (k + j)))"
proof (induction xs arbitrary: k)
  case Nil
  then show ?case by simp
next
  case (Cons x xs)
  show ?case
  proof (cases "P x k")
    case True
    then have "findIndexFrom P k (x # xs) = int (k + 0) \<and> P ((x # xs) ! 0) (k + 0) \<and>
      (\<forall>j < 0. \<not> P ((x # xs) ! j) (k + j))"
      by simp
    then show ?thesis by blast
  next
    case False
    from Cons.IH [of "Suc k"] show ?thesis
    proof
      assume a: "findIndexFrom P (Suc k) xs = - 1 \<and> (\<forall>i < length xs. \<not> P (xs ! i) (Suc k + i))"
      have "\<not> P ((x # xs) ! i) (k + i)" if "i < length (x # xs)" for i
        using that a False by (cases i) auto
      then show ?thesis
        using a False by simp
    next
      assume "\<exists>i < length xs. findIndexFrom P (Suc k) xs = int (Suc k + i) \<and> P (xs ! i) (Suc k + i) \<and>
        (\<forall>j < i. \<not> P (xs ! j) (Suc k + j))"
      then obtain i where i: "i < length xs" "findIndexFrom P (Suc k) xs = int (Suc k + i)"
        "P (xs ! i) (Suc k + i)" "\<forall>j < i. \<not> P (xs ! j) (Suc k + j)"
        by blast
      have "\<not> P ((x # xs) ! j) (k + j)" if "j < Suc i" for j
        using that i(4) False by (cases j) auto
      then have "Suc i < length (x # xs) \<and> findIndexFrom P k (x # xs) = int (k + Suc i) \<and>
        P ((x # xs) ! Suc i) (k + Suc i) \<and> (\<forall>j < Suc i. \<not> P ((x # xs) ! j) (k + j))"
        using i False by simp
      then show ?thesis by blast
    qed
  qed
qed

lemma findIndex_cases:
  "(findIndex P xs = - 1 \<and> (\<forall>i < length xs. \<not> P (xs ! i) i)) \<or>
   (\<exists>i < length xs. findIndex P xs = int i \<and> P (xs ! i) i \<and> (\<forall>j < i. \<not> P (xs ! j) j))"
  using findIndexFrom_cases [of P 0 xs] by (simp add: findIndex_def)

lemma findIndex_found:
  assumes "0 \<le> findIndex P xs"
  shows "nat (findIndex P xs) < length xs \<and> P (xs ! nat (findIndex P xs)) (nat (findIndex P xs)) \<and>
         (\<forall>j < nat (findIndex P xs). \<not> P (xs ! j) j)"
  using findIndex_cases [of P xs] assms by auto

section \<open>Times of the candidates\<close>










section \<open>The direct selection\<close>





section \<open>Times of the transfer plans\<close>








section \<open>The order of the alternatives\<close>







section \<open>No candidate is enumerated twice\<close>






















section \<open>The alighting choice\<close>

lemma findIndex_eqI:
  assumes "d < length xs" "P (xs ! d) d" "\<And>j. j < d \<Longrightarrow> \<not> P (xs ! j) j"
  shows "findIndex P xs = int d"
proof -
  from findIndex_cases [of P xs] assms(1,2)
  obtain i where i: "i < length xs" "findIndex P xs = int i" "P (xs ! i) i" "\<forall>j < i. \<not> P (xs ! j) j"
    by blast
  have "i = d"
    using i(3,4) assms(2,3) by (meson linorder_neqE_nat)
  then show ?thesis
    using i(2) by simp
qed

lemma firstDestinationAfter_index:
  assumes "firstDestinationAfter stopTimes b destination d"
  shows "findIndex (\<lambda>time index. int index > int b \<and> st_stop_id time = stop_id destination) stopTimes
         = int d"
proof (rule findIndex_eqI)
  show "d < length stopTimes"
    using assms by (simp add: firstDestinationAfter_def)
  show "int b < int d \<and> st_stop_id (stopTimes ! d) = stop_id destination"
    using assms by (simp add: firstDestinationAfter_def)
  fix j
  assume "j < d"
  then have "j \<le> b \<or> j \<in> set [Suc b ..< d]"
    by auto
  then show "\<not> (int b < int j \<and> st_stop_id (stopTimes ! j) = stop_id destination)"
    using assms by (auto simp: firstDestinationAfter_def list_all_iff)
qed

lemma index_firstDestinationAfter:
  assumes "findIndex (\<lambda>time index. int index > int b \<and> st_stop_id time = stop_id destination) stopTimes
           = int d"
  shows "firstDestinationAfter stopTimes b destination d"
proof -
  have "0 \<le> findIndex (\<lambda>time index. int index > int b \<and> st_stop_id time = stop_id destination) stopTimes"
    using assms by simp
  from findIndex_found [OF this] show ?thesis
    unfolding assms by (auto simp: firstDestinationAfter_def list_all_iff)
qed

lemma exactAlight_match:
  assumes "exactMatch N stopById stopTimes b destination d s"
  shows "exactAlight N stopById destination stopTimes (int b) = (Some (stopTimes ! d), Some s)"
  using assms firstDestinationAfter_index [of stopTimes b destination d]
  by (simp add: exactMatch_def exactAlight_def Let_def)

lemma exactAlight_only_match:
  assumes "exactAlight N stopById destination stopTimes (int b) = (Some st, Some s)"
  shows "\<exists>d. exactMatch N stopById stopTimes b destination d s \<and> st = stopTimes ! d"
proof -
  let ?d = "findIndex (\<lambda>time index. int index > int b \<and> st_stop_id time = stop_id destination) stopTimes"
  have d: "0 \<le> ?d"
    using assms by (auto simp: exactAlight_def Let_def split: if_splits)
  then have e: "?d = int (nat ?d)"
    by simp
  have "exactMatch N stopById stopTimes b destination (nat ?d) s \<and> st = stopTimes ! nat ?d"
    using assms d index_firstDestinationAfter [OF e]
    by (auto simp: exactAlight_def exactMatch_def Let_def split: if_splits)
  then show ?thesis ..
qed

lemma directCandidate_unfold:
  assumes "stopTimesByTrip (trip_id t) = Some stopTimes"
    and "findIndex (\<lambda>time _. st_stop_id time = stop_id origin) stopTimes = int b"
  shows "directCandidate N hav stopTimesByTrip stopById routeById destinationLocation origin destination t =
         (case chooseAlight N hav stopById destinationLocation destination stopTimes (int b) of
            (Some alightT, Some alight) \<Rightarrow>
              (if js_ge (stop_sequence (stopTimes ! b)) (stop_sequence alightT) then None
               else (case stopById (st_stop_id (stopTimes ! b)) of
                       None \<Rightarrow> None
                     | Some board \<Rightarrow>
                         Some \<lparr> trip = t, route = routeById (route_id t),
                                boardStop = board, alightStop = alight,
                                boardTime = departure_time (stopTimes ! b),
                                alightTime = arrival_time alightT,
                                boardSequence = stop_sequence (stopTimes ! b),
                                alightSequence = stop_sequence alightT \<rparr>))
          | _ \<Rightarrow> None)"
  using assms by (simp add: directCandidate_def Let_def)

text \<open>
  Claim C3, as amended. Take a trip with its stop-times and boarding index \<open>b\<close>. When
  the exact-match rule succeeds (the first destination stop-time after \<open>b\<close> arrives
  strictly after the boarding departure, and its stop is known), the trip's candidate is
  the ride to that stop-time, whatever the distance function and the destination
  coordinate are. When the rule does not succeed and the trip still yields a candidate,
  a destination coordinate was supplied and the alighting stop-time is the one the
  proximity fallback picked. The rule fails, and the fallback is used, also when a
  destination stop-time exists after \<open>b\<close> but does not arrive strictly after the
  boarding departure.
\<close>

theorem alighting_choice:
  assumes "stopTimesByTrip (trip_id t) = Some stopTimes"
    and "findIndex (\<lambda>time _. st_stop_id time = stop_id origin) stopTimes = int b"
  shows "(exactMatch N stopById stopTimes b destination d s \<longrightarrow>
            directCandidate N hav stopTimesByTrip stopById routeById destinationLocation
              origin destination t = rideBetween stopById routeById t stopTimes b d s) \<and>
         ((\<forall>d s. \<not> exactMatch N stopById stopTimes b destination d s) \<and>
          directCandidate N hav stopTimesByTrip stopById routeById destinationLocation
            origin destination t = Some c \<longrightarrow>
            destinationLocation \<noteq> None \<and>
            (\<exists>st stop km.
               pickClosestStopAfterBoard N hav stopById destinationLocation stopTimes b
                 (timeToMinutes N (departure_time (stopTimes ! b))) = Some (st, stop, km) \<and>
               alightTime c = arrival_time st \<and> alightStop c = stop \<and>
               alightSequence c = stop_sequence st))"
proof (rule conjI)
  show "exactMatch N stopById stopTimes b destination d s \<longrightarrow>
            directCandidate N hav stopTimesByTrip stopById routeById destinationLocation
              origin destination t = rideBetween stopById routeById t stopTimes b d s"
  proof
    assume "exactMatch N stopById stopTimes b destination d s"
    from exactAlight_match [OF this]
    have "chooseAlight N hav stopById destinationLocation destination stopTimes (int b) =
          (Some (stopTimes ! d), Some s)"
      by (simp add: chooseAlight_def Let_def)
    then show "directCandidate N hav stopTimesByTrip stopById routeById destinationLocation
                origin destination t = rideBetween stopById routeById t stopTimes b d s"
      unfolding directCandidate_unfold [where stopTimesByTrip = stopTimesByTrip and t = t, OF assms]
      by (simp add: rideBetween_def)
  qed
next
  let ?exact = "exactAlight N stopById destination stopTimes (int b)"
  let ?pick = "pickClosestStopAfterBoard N hav stopById destinationLocation stopTimes b
                 (timeToMinutes N (departure_time (stopTimes ! b)))"
  show "(\<forall>d s. \<not> exactMatch N stopById stopTimes b destination d s) \<and>
          directCandidate N hav stopTimesByTrip stopById routeById destinationLocation
            origin destination t = Some c \<longrightarrow>
            destinationLocation \<noteq> None \<and>
            (\<exists>st stop km. ?pick = Some (st, stop, km) \<and>
               alightTime c = arrival_time st \<and> alightStop c = stop \<and>
               alightSequence c = stop_sequence st)"
  proof
    assume a: "(\<forall>d s. \<not> exactMatch N stopById stopTimes b destination d s) \<and>
          directCandidate N hav stopTimesByTrip stopById routeById destinationLocation
            origin destination t = Some c"
    have miss: "fst ?exact = None \<or> snd ?exact = None"
    proof (rule ccontr)
      assume "\<not> (fst ?exact = None \<or> snd ?exact = None)"
      then obtain st s where "?exact = (Some st, Some s)"
        by (cases ?exact) auto
      from exactAlight_only_match [OF this] a show False
        by blast
    qed
    obtain alightT alight
      where ch: "chooseAlight N hav stopById destinationLocation destination stopTimes (int b) =
                 (Some alightT, Some alight)"
        and c: "alightTime c = arrival_time alightT" "alightStop c = alight"
          "alightSequence c = stop_sequence alightT"
      using a unfolding directCandidate_unfold [where stopTimesByTrip = stopTimesByTrip and t = t, OF assms]
      by (auto split: prod.splits option.splits if_splits)
    have "?pick \<noteq> None"
      using ch miss by (auto simp: chooseAlight_def Let_def split: option.splits)
    then obtain st stop km where pk: "?pick = Some (st, stop, km)"
      by (cases ?pick) auto
    then have "st = alightT \<and> stop = alight"
      using ch miss by (auto simp: chooseAlight_def Let_def)
    then have p: "?pick = Some (alightT, alight, km)"
      using pk by simp
    then have "destinationLocation \<noteq> None"
      by (cases destinationLocation) (simp_all add: pickClosestStopAfterBoard_def)
    then show "destinationLocation \<noteq> None \<and>
            (\<exists>st stop km. ?pick = Some (st, stop, km) \<and>
               alightTime c = arrival_time st \<and> alightStop c = stop \<and>
               alightSequence c = stop_sequence st)"
      using p c by blast
  qed
qed

theorem alighting_choice_witness:
  "exactMatch NumberDec rollStops
     [mkTime ''t1'' ''A'' ''08:00:00'' 1, mkTime ''t1'' ''B'' ''08:10:00'' 2] 0 (mkStop ''B'') 1
     (mkStop ''B'') \<and>
   directCandidate NumberDec flatHav rollTimes rollStops Map.empty (Some (location gapAddress))
     (mkStop ''A'') (mkStop ''B'') (mkTrip ''t1'') =
   rideBetween rollStops Map.empty (mkTrip ''t1'')
     [mkTime ''t1'' ''A'' ''08:00:00'' 1, mkTime ''t1'' ''B'' ''08:10:00'' 2] 0 1 (mkStop ''B'') \<and>
   (\<exists>st stop km.
      pickClosestStopAfterBoard NumberDec flatHav detourStops (Some (location gapAddress))
        [mkTime ''x1'' ''A'' ''08:00:00'' 1, mkTime ''x1'' ''B'' ''08:00:00'' 2,
         mkTime ''x1'' ''C'' ''08:30:00'' 3] 0
        (timeToMinutes NumberDec
           (departure_time ([mkTime ''x1'' ''A'' ''08:00:00'' 1, mkTime ''x1'' ''B'' ''08:00:00'' 2,
              mkTime ''x1'' ''C'' ''08:30:00'' 3] ! 0))) = Some (st, stop, km) \<and>
      alightTime detourRide = arrival_time st \<and> alightStop detourRide = stop \<and>
      alightSequence detourRide = stop_sequence st)"
proof -
  let ?roll = "[mkTime ''t1'' ''A'' ''08:00:00'' 1, mkTime ''t1'' ''B'' ''08:10:00'' 2]"
  let ?detour = "[mkTime ''x1'' ''A'' ''08:00:00'' 1, mkTime ''x1'' ''B'' ''08:00:00'' 2,
         mkTime ''x1'' ''C'' ''08:30:00'' 3]"
  have r1: "rollTimes (trip_id (mkTrip ''t1'')) = Some ?roll"
    by (simp add: rollTimes_def mkTrip_def)
  have r2: "findIndex (\<lambda>time _. st_stop_id time = stop_id (mkStop ''A'')) ?roll = int 0"
    by (simp add: findIndex_def mkTime_def mkStop_def)
  have m: "exactMatch NumberDec rollStops ?roll 0 (mkStop ''B'') 1 (mkStop ''B'')"
    by code_simp
  have d1: "detourTimes (trip_id (mkTrip ''x1'')) = Some ?detour"
    by (simp add: detourTimes_def mkTrip_def)
  have d2: "findIndex (\<lambda>time _. st_stop_id time = stop_id (mkStop ''A'')) ?detour = int 0"
    by (simp add: findIndex_def mkTime_def mkStop_def)
  have one: "firstDestinationAfter ?detour 0 (mkStop ''B'') 1"
    by code_simp
  have late: "\<not> js_gt (timeToMinutes NumberDec (arrival_time (?detour ! 1)))
            (timeToMinutes NumberDec (departure_time (?detour ! 0)))"
    by code_simp
  have no: "\<not> exactMatch NumberDec detourStops ?detour 0 (mkStop ''B'') d s" for d s
  proof
    assume e: "exactMatch NumberDec detourStops ?detour 0 (mkStop ''B'') d s"
    then have fd: "firstDestinationAfter ?detour 0 (mkStop ''B'') d"
      by (simp add: exactMatch_def)
    have "int d = int 1"
      using firstDestinationAfter_index [OF fd] firstDestinationAfter_index [OF one] by simp
    then have "d = 1"
      by simp
    then show False
      using e late by (simp add: exactMatch_def)
  qed
  have c: "directCandidate NumberDec flatHav detourTimes detourStops Map.empty
             (Some (location gapAddress)) (mkStop ''A'') (mkStop ''B'') (mkTrip ''x1'') =
           Some detourRide"
    by code_simp
  note a1 = alighting_choice [where stopTimesByTrip = rollTimes and t = "mkTrip ''t1''"
      and N = NumberDec and stopById = rollStops and destination = "mkStop ''B''" and d = 1
      and s = "mkStop ''B''" and hav = flatHav and routeById = Map.empty
      and destinationLocation = "Some (location gapAddress)", OF r1 r2, THEN conjunct1]
  have a: "directCandidate NumberDec flatHav rollTimes rollStops Map.empty (Some (location gapAddress))
     (mkStop ''A'') (mkStop ''B'') (mkTrip ''t1'') =
   rideBetween rollStops Map.empty (mkTrip ''t1'') ?roll 0 1 (mkStop ''B'')"
    by (rule a1 [THEN mp, OF m])
  note b1 = alighting_choice [where stopTimesByTrip = detourTimes and t = "mkTrip ''x1''"
      and N = NumberDec and stopById = detourStops and destination = "mkStop ''B''"
      and hav = flatHav and routeById = Map.empty and c = detourRide
      and destinationLocation = "Some (location gapAddress)", OF d1 d2, THEN conjunct2]
  have pre: "(\<forall>d s. \<not> exactMatch NumberDec detourStops ?detour 0 (mkStop ''B'') d s) \<and>
     directCandidate NumberDec flatHav detourTimes detourStops Map.empty
             (Some (location gapAddress)) (mkStop ''A'') (mkStop ''B'') (mkTrip ''x1'') =
           Some detourRide"
    using no c by simp
  note b = b1 [THEN mp, OF pre, THEN conjunct2]
  show ?thesis
    by (intro conjI m a b)
qed

text \<open>
  On the trip A (08:00), B (08:00), C (08:30) with a geocoded destination, a stop-time of
  the destination B exists after the boarding index, yet the candidate alights at C,
  chosen by proximity.
\<close>

theorem alighting_choice_counterexample:
  "firstDestinationAfter
     [mkTime ''x1'' ''A'' ''08:00:00'' 1, mkTime ''x1'' ''B'' ''08:00:00'' 2,
      mkTime ''x1'' ''C'' ''08:30:00'' 3] 0 (mkStop ''B'') 1 \<and>
   candidates NumberDec flatHav [mkTrip ''x1''] detourTimes detourStops Map.empty
     (Some (location gapAddress)) (mkStop ''A'') (mkStop ''B'') = [detourRide] \<and>
   alightStop detourRide = mkStop ''C''"
  by code_simp

section \<open>The reachability filter\<close>














end
